theory Spec2Isabelle
  imports Main "HOL-Library.Sublist"
begin

section \<open>Python string primitives used by the source\<close>

text \<open>
  Python strings are modelled as \<open>string\<close>. The three primitives the source uses
  are \<^verbatim>\<open>sep.join(xs)\<close>, \<^verbatim>\<open>sub in s\<close> and \<^verbatim>\<open>s.replace(old, new)\<close>.
  \<open>replace\<close> scans from the left and substitutes every non-overlapping occurrence;
  with an empty \<open>old\<close> Python puts \<open>new\<close> before every character and at the end.
\<close>

fun join :: "string \<Rightarrow> string list \<Rightarrow> string" where
  "join sep [] = []"
| "join sep [x] = x"
| "join sep (x # y # ys) = x @ sep @ join sep (y # ys)"

fun contains :: "string \<Rightarrow> string \<Rightarrow> bool" where
  "contains [] sub = (sub = [])"
| "contains (c # cs) sub = (prefix sub (c # cs) \<or> contains cs sub)"

function replace :: "string \<Rightarrow> string \<Rightarrow> string \<Rightarrow> string" where
  "replace [] old new = (if old = [] then new else [])"
| "replace (c # cs) old new =
     (if old = [] then new @ c # replace cs old new
      else if prefix old (c # cs) then new @ replace (drop (length old) (c # cs)) old new
      else c # replace cs old new)"
  by pat_completeness auto
termination
  by (relation "measure (\<lambda>(s, old, new). length s)") auto

section \<open>The search tool and the custom tools\<close>

text \<open>
  \<^verbatim>\<open>search_tool = SerperDevTool()\<close> is an external collaborator. A call
  \<^verbatim>\<open>search_tool.run(q)\<close> either returns its result text or raises an exception
  \<open>e\<close>, of which the source only ever reads \<^verbatim>\<open>str(e)\<close>. The result is
  taken to be a \<^verbatim>\<open>str\<close>, as \<^verbatim>\<open>"\n\n".join(results)\<close> requires. The
  exceptions modelled are those of class \<^verbatim>\<open>Exception\<close>, which is what
  \<^verbatim>\<open>except Exception\<close> catches.
\<close>

datatype exn = Exception string

fun str_exn :: "exn \<Rightarrow> string" where
  "str_exn (Exception msg) = msg"

type_synonym search_tool = "string \<Rightarrow> exn + string"

text \<open>
  \<^verbatim>\<open>analyze_cabo_tourism_data\<close>: the loop body is wrapped in
  \<^verbatim>\<open>try ... except Exception as e\<close>; the handler appends an error entry.
\<close>

definition try_except :: "exn + 'a \<Rightarrow> (exn \<Rightarrow> exn + 'a) \<Rightarrow> exn + 'a" where
  "try_except body handler = (case body of Inl e \<Rightarrow> handler e | Inr v \<Rightarrow> Inr v)"

definition tourism_search_queries :: "string \<Rightarrow> string list" where
  "tourism_search_queries query =
     [query @ '' Cabo San Lucas tourism statistics 2024 2025'',
      query @ '' Los Cabos visitor demographics luxury travel'',
      query @ '' Cabo adventure tourism wellness retreats'',
      query @ '' Los Cabos hotel occupancy rates trends'']"

fun tourism_loop :: "search_tool \<Rightarrow> string list \<Rightarrow> string list \<Rightarrow> exn + string list" where
  "tourism_loop run [] results = Inr results"
| "tourism_loop run (sq # sqs) results =
     (case try_except
             (case run sq of
                Inl e \<Rightarrow> Inl e
              | Inr result \<Rightarrow> Inr (results @ [result]))
             (\<lambda>e. Inr (results @ [''Error searching for '' @ sq @ '': '' @ str_exn e]))
      of Inl e \<Rightarrow> Inl e
       | Inr results' \<Rightarrow> tourism_loop run sqs results')"

definition analyze_cabo_tourism_data :: "search_tool \<Rightarrow> string \<Rightarrow> exn + string" where
  "analyze_cabo_tourism_data run query =
     (case tourism_loop run (tourism_search_queries query) [] of
        Inl e \<Rightarrow> Inl e
      | Inr results \<Rightarrow> Inr (join ''\<newline>\<newline>'' results))"

text \<open>
  The other four tools share one loop shape: call the search tool on each query, with no
  handler, and append a labelled entry \<^verbatim>\<open>f"{label1}: {q}\n{label2}: {result}"\<close>.
  \<open>for_each_query\<close> is that loop; each tool supplies its queries and its two labels.
\<close>

fun for_each_query ::
  "search_tool \<Rightarrow> string \<Rightarrow> string \<Rightarrow> string list \<Rightarrow> string list \<Rightarrow> exn + string list" where
  "for_each_query run l1 l2 [] acc = Inr acc"
| "for_each_query run l1 l2 (q # qs) acc =
     (case run q of
        Inl e \<Rightarrow> Inl e
      | Inr result \<Rightarrow>
          for_each_query run l1 l2 qs (acc @ [l1 @ '': '' @ q @ ''\<newline>'' @ l2 @ '': '' @ result]))"

definition competitor_queries :: "string \<Rightarrow> string list" where
  "competitor_queries business_type =
     [business_type @ '' Cabo San Lucas top rated TripAdvisor'',
      business_type @ '' Los Cabos pricing strategies 2024'',
      business_type @ '' Cabo digital tools technology adoption'',
      business_type @ '' Los Cabos customer complaints reviews'']"

definition analyze_competitors :: "search_tool \<Rightarrow> string \<Rightarrow> exn + string" where
  "analyze_competitors run business_type =
     (case for_each_query run ''Query'' ''Results'' (competitor_queries business_type) [] of
        Inl e \<Rightarrow> Inl e
      | Inr competitor_data \<Rightarrow> Inr (join ''\<newline>\<newline>'' competitor_data))"

definition sentiment_sources :: "string \<Rightarrow> string list" where
  "sentiment_sources business_category =
     [''TripAdvisor reviews '' @ business_category @ '' Cabo San Lucas 2024 complaints'',
      ''Google reviews '' @ business_category @ '' Los Cabos what customers want'',
      ''Reddit r/cabo '' @ business_category @ '' recommendations problems'',
      ''Facebook groups Cabo tourism '' @ business_category @ '' discussions'']"

definition analyze_customer_sentiment :: "search_tool \<Rightarrow> string \<Rightarrow> exn + string" where
  "analyze_customer_sentiment run business_category =
     (case for_each_query run ''Source'' ''Findings'' (sentiment_sources business_category) [] of
        Inl e \<Rightarrow> Inl e
      | Inr sentiments \<Rightarrow> Inr (join ''\<newline>\<newline>'' sentiments))"

definition trend_queries :: "string \<Rightarrow> string list" where
  "trend_queries industry_segment =
     [industry_segment @ '' tourism trends 2025 predictions Mexico'',
      industry_segment @ '' technology adoption hospitality industry'',
      industry_segment @ '' post-pandemic travel preferences luxury'',
      industry_segment @ '' sustainability eco-tourism Los Cabos'']"

definition predict_market_trends :: "search_tool \<Rightarrow> string \<Rightarrow> exn + string" where
  "predict_market_trends run industry_segment =
     (case for_each_query run ''Trend area'' ''Predictions'' (trend_queries industry_segment) [] of
        Inl e \<Rightarrow> Inl e
      | Inr predictions \<Rightarrow> Inr (join ''\<newline>\<newline>'' predictions))"

definition roi_factors :: "string \<Rightarrow> string \<Rightarrow> string list" where
  "roi_factors product_type target_market =
     [product_type @ '' pricing models '' @ target_market @ '' tourism'',
      product_type @ '' implementation costs hospitality industry'',
      product_type @ '' adoption rates hotels resorts statistics'',
      target_market @ '' technology budget spending tourism'']"

definition calculate_roi_potential :: "search_tool \<Rightarrow> string \<Rightarrow> string \<Rightarrow> exn + string" where
  "calculate_roi_potential run product_type target_market =
     (case for_each_query run ''ROI Factor'' ''Data'' (roi_factors product_type target_market) [] of
        Inl e \<Rightarrow> Inl e
      | Inr roi_data \<Rightarrow> Inr (join ''\<newline>\<newline>'' roi_data))"

section \<open>The crew configuration\<close>

text \<open>
  The agents and tasks of \<^verbatim>\<open>cabo_research_crew\<close>, with the fields that the code
  below reads (prompt texts are left out: nothing in this repository inspects them).
\<close>

datatype tool =
    Analyze_cabo_tourism_data | Analyze_competitors | Analyze_customer_sentiment
  | Predict_market_trends | Calculate_roi_potential | Search_tool | Website_tool

record agent =
  role :: string
  tools :: "tool list"
  max_iter :: nat

record task =
  task_name :: string
  task_agent :: agent

record crew =
  agents :: "agent list"
  tasks :: "task list"
  memory :: bool
  cache :: bool
  max_rpm :: nat

definition market_researcher :: agent where
  "market_researcher =
     \<lparr>role = ''Cabo Tourism Market Research Specialist'',
      tools = [Analyze_cabo_tourism_data, Analyze_competitors, Search_tool, Website_tool],
      max_iter = 5\<rparr>"

definition customer_insights_analyst :: agent where
  "customer_insights_analyst =
     \<lparr>role = ''Customer Experience & Sentiment Analyst'',
      tools = [Analyze_customer_sentiment, Search_tool, Website_tool],
      max_iter = 4\<rparr>"

definition product_strategist :: agent where
  "product_strategist =
     \<lparr>role = ''AI Product Strategy Specialist'',
      tools = [Predict_market_trends, Calculate_roi_potential, Search_tool],
      max_iter = 4\<rparr>"

definition business_analyst :: agent where
  "business_analyst =
     \<lparr>role = ''Tourism Business Operations Analyst'',
      tools = [Analyze_competitors, Search_tool, Website_tool],
      max_iter = 3\<rparr>"

definition implementation_strategist :: agent where
  "implementation_strategist =
     \<lparr>role = ''Market Entry & Implementation Strategist'',
      tools = [Search_tool, Website_tool],
      max_iter = 3\<rparr>"

definition cabo_research_crew :: crew where
  "cabo_research_crew =
     \<lparr>agents = [market_researcher, customer_insights_analyst, product_strategist,
                business_analyst, implementation_strategist],
      tasks = [\<lparr>task_name = ''market_analysis_task'', task_agent = market_researcher\<rparr>,
               \<lparr>task_name = ''customer_insights_task'', task_agent = customer_insights_analyst\<rparr>,
               \<lparr>task_name = ''solution_design_task'', task_agent = product_strategist\<rparr>,
               \<lparr>task_name = ''feasibility_task'', task_agent = business_analyst\<rparr>,
               \<lparr>task_name = ''implementation_roadmap_task'',
                task_agent = implementation_strategist\<rparr>],
      memory = True,
      cache = True,
      max_rpm = 10\<rparr>"

section \<open>Persisting the result\<close>

text \<open>
  The dictionary handed to \<^verbatim>\<open>json.dump\<close> is a \<open>json\<close> value. What the program
  cannot compute by itself is a parameter, collected in \<open>env\<close>:
  \<^item> \<open>str_of\<close> is \<^verbatim>\<open>str(result)\<close>, taken to return;
  \<^item> \<open>now_strftime\<close> and \<open>now_isoformat\<close> are the two readings of the clock,
    \<^verbatim>\<open>datetime.now().strftime("%Y%m%d_%H%M%S")\<close> for the default file name and
    \<^verbatim>\<open>datetime.now().isoformat()\<close> for the time stamp;
  \<^item> \<open>json_dump\<close> is what \<^verbatim>\<open>json.dump(output, f, indent=2, ensure_ascii=False)\<close>
    does on the opened file: it writes the whole text (\<open>Inr\<close>), or it raises an exception
    after having written a part of it (\<open>Inl\<close>, with the part written);
  \<^item> \<open>open_error\<close> is the exception with which the file system refuses to open a path
    for writing, if it does (a directory, a missing parent, no permission).

  The \<open>world\<close> is what the program changes: the files (path to content), the log of the
  files written and closed, in order, and the lines printed.
  \<^verbatim>\<open>open(path, 'w', encoding='utf-8')\<close> raises \<^verbatim>\<open>FileNotFoundError\<close> for the
  empty path and \<^verbatim>\<open>ValueError\<close> for a path with a null character, whatever the file
  system holds; otherwise the file system decides. An opened file is truncated, and what
  the body of the \<^verbatim>\<open>with\<close> block wrote is its content when the block is left,
  by its end or by an exception. Writing text to an opened file is taken to succeed once
  the dump of the same text has.
\<close>

datatype json = JString string | JInt int | JObject "(string \<times> json) list"

fun field :: "json \<Rightarrow> string \<Rightarrow> json option" where
  "field (JObject kvs) k = map_of kvs k"
| "field _ k = None"

record 'r env =
  str_of :: "'r \<Rightarrow> string"
  now_strftime :: string
  now_isoformat :: string
  json_dump :: "json \<Rightarrow> (exn \<times> string) + string"
  open_error :: "string \<Rightarrow> exn option"

record world =
  files :: "string \<rightharpoonup> string"
  writes :: "(string \<times> string) list"
  stdout :: "string list"

definition open_raises :: "'r env \<Rightarrow> string \<Rightarrow> exn option" where
  "open_raises env path =
     (if path = [] then
        Some (Exception (''[Errno 2] No such file or directory: '' @ [CHR 0x27, CHR 0x27]))
      else if CHR 0x00 \<in> set path then Some (Exception ''embedded null byte'')
      else open_error env path)"

definition store :: "string \<Rightarrow> string \<Rightarrow> world \<Rightarrow> world" where
  "store path content w =
     w\<lparr>files := (files w)(path \<mapsto> content), writes := writes w @ [(path, content)]\<rparr>"

definition open_write ::
  "'r env \<Rightarrow> string \<Rightarrow> (exn \<times> string) + string \<Rightarrow> world \<Rightarrow> (exn + unit) \<times> world" where
  "open_write env path body w =
     (case open_raises env path of
        Some e \<Rightarrow> (Inl e, w)
      | None \<Rightarrow>
          (case body of
             Inl (e, written) \<Rightarrow> (Inl e, store path written w)
           | Inr content \<Rightarrow> (Inr (), store path content w)))"


definition default_filename :: "'r env \<Rightarrow> string" where
  "default_filename env = ''cabo_market_research_'' @ now_strftime env @ ''.json''"

definition resolve_filename :: "'r env \<Rightarrow> string option \<Rightarrow> string" where
  "resolve_filename env filename_opt =
     (case filename_opt of None \<Rightarrow> default_filename env | Some f \<Rightarrow> f)"

definition output_dict :: "'r env \<Rightarrow> 'r \<Rightarrow> json" where
  "output_dict env result =
     JObject
       [(''timestamp'', JString (now_isoformat env)),
        (''research_type'', JString ''Cabo Tourism Market Analysis''),
        (''result'', JString (str_of env result)),
        (''metadata'',
           JObject
             [(''crew_size'', JInt (int (length (agents cabo_research_crew)))),
              (''tasks_completed'', JInt (int (length (tasks cabo_research_crew))))])]"

definition report_text :: "'r env \<Rightarrow> 'r \<Rightarrow> string" where
  "report_text env result =
     ''Cabo Tourism Market Research Report\<newline>''
     @ (''Generated: '' @ now_isoformat env @ ''\<newline>'')
     @ (replicate 80 (CHR ''='') @ ''\<newline>\<newline>'')
     @ str_of env result"

definition save_results ::
  "'r env \<Rightarrow> 'r \<Rightarrow> string option \<Rightarrow> world \<Rightarrow> (exn + string \<times> string) \<times> world" where
  "save_results env result filename_opt w =
     (let filename = resolve_filename env filename_opt
      in case open_write env filename (json_dump env (output_dict env result)) w of
           (Inl e, w1) \<Rightarrow> (Inl e, w1)
         | (Inr _, w1) \<Rightarrow>
             (let txt_filename = replace filename ''.json'' ''.txt''
              in case open_write env txt_filename (Inr (report_text env result)) w1 of
                   (Inl e, w2) \<Rightarrow> (Inl e, w2)
                 | (Inr _, w2) \<Rightarrow> (Inr (filename, txt_filename), w2)))"

section \<open>The main block\<close>



section \<open>Example inputs\<close>

text \<open>
  A search tool that never raises is a function from the query to the result text;
  \<open>total_search\<close> makes a \<open>search_tool\<close> of it. The other constants are the
  concrete inputs at which the theorems below are instantiated: \<open>example_env\<close> has a
  file system that opens every path it is asked for and a dump that writes the dictionary
  on one line.
\<close>

definition total_search :: "(string \<Rightarrow> string) \<Rightarrow> search_tool" where
  "total_search f q = Inr (f q)"

definition always_timeout :: search_tool where
  "always_timeout q = Inl (Exception ''timeout'')"

definition echo_search :: "string \<Rightarrow> string" where
  "echo_search q = ''hits for '' @ q"

definition echo_search_except :: "string \<Rightarrow> string" where
  "echo_search_except q = (if q = ''weather'' then ''sunny'' else ''hits for '' @ q)"

function example_digits :: "nat \<Rightarrow> string" where
  "example_digits n =
     (if n < 10 then [''0123456789'' ! n]
      else example_digits (n div 10) @ [''0123456789'' ! (n mod 10)])"
  by pat_completeness auto
termination
  by (relation "measure id") auto

fun example_render :: "json \<Rightarrow> string" where
  "example_render (JString s) = [CHR 0x22] @ s @ [CHR 0x22]"
| "example_render (JInt i) = (if i < 0 then ''-'' else []) @ example_digits (nat \<bar>i\<bar>)"
| "example_render (JObject kvs) =
     ''{'' @ join '', '' (map (\<lambda>(k, v). [CHR 0x22] @ k @ [CHR 0x22] @ '': '' @ example_render v) kvs) @ ''}''"

definition example_env :: "string env" where
  "example_env =
     \<lparr>str_of = id, now_strftime = ''20250101_120000'',
      now_isoformat = ''2025-01-01T12:00:00'',
      json_dump = (\<lambda>j. Inr (example_render j)),
      open_error = (\<lambda>path. None)\<rparr>"

definition empty_world :: world where
  "empty_world = \<lparr>files = Map.empty, writes = [], stdout = []\<rparr>"

section \<open>Facts about the string primitives, the loops and \<open>save_results\<close>\<close>

lemma contains_sublist: "contains s sub = sublist sub s"
  by (induction s) (auto simp: sublist_Cons_right)

lemma contains_append_right: "contains (xs @ ys) ys"
  unfolding contains_sublist sublist_def by (rule exI [of _ xs], rule exI [of _ "[]"]) simp

lemma contains_middle: "contains (xs @ ys @ zs) ys"
  unfolding contains_sublist sublist_def by blast

lemma replace_absent: "old \<noteq> [] \<Longrightarrow> \<not> contains s old \<Longrightarrow> replace s old new = s"
  by (induction s old new rule: replace.induct) auto

lemma replace_length_le:
  "old \<noteq> [] \<Longrightarrow> length new \<le> length old \<Longrightarrow> length (replace s old new) \<le> length s"
proof (induction s old new rule: replace.induct)
  case (1 old new)
  then show ?case by simp
next
  case (2 c cs old new)
  show ?case
  proof (cases "prefix old (c # cs)")
    case True
    then have len: "length old \<le> length (c # cs)" by (rule prefix_length_le)
    from 2 True have "length (replace (drop (length old) (c # cs)) old new)
        \<le> length (drop (length old) (c # cs))" by simp
    with len 2(4,5) True show ?thesis by simp
  next
    case False
    with 2 show ?thesis by simp
  qed
qed

lemma replace_length_less:
  "old \<noteq> [] \<Longrightarrow> length new < length old \<Longrightarrow> contains s old
     \<Longrightarrow> length (replace s old new) < length s"
proof (induction s old new rule: replace.induct)
  case (1 old new)
  then show ?case by simp
next
  case (2 c cs old new)
  show ?case
  proof (cases "prefix old (c # cs)")
    case True
    then have len: "length old \<le> length (c # cs)" by (rule prefix_length_le)
    have "length (replace (drop (length old) (c # cs)) old new)
        \<le> length (drop (length old) (c # cs))"
      using 2(4,5) by (intro replace_length_le) simp_all
    with len 2(4,5) True show ?thesis by simp
  next
    case False
    with 2 show ?thesis by simp
  qed
qed

lemma replace_json_fixed: "\<not> contains f ''.json'' \<Longrightarrow> replace f ''.json'' ''.txt'' = f"
  by (rule replace_absent) simp_all

lemma replace_json_changes: "contains f ''.json'' \<Longrightarrow> replace f ''.json'' ''.txt'' \<noteq> f"
proof
  assume c: "contains f ''.json''" and eq: "replace f ''.json'' ''.txt'' = f"
  have "length (replace f ''.json'' ''.txt'') < length f"
    using c by (intro replace_length_less) simp_all
  with eq show False by simp
qed

lemma replace_json_eq_iff: "(replace f ''.json'' ''.txt'' \<noteq> f) = contains f ''.json''"
  using replace_json_fixed replace_json_changes by blast

lemma default_filename_contains: "contains (default_filename env) ''.json''"
  unfolding default_filename_def
  using contains_append_right [of "''cabo_market_research_'' @ now_strftime env" "''.json''"]
  by simp

lemma prefix_append_long: "length p \<le> length x \<Longrightarrow> prefix p (x @ y) = prefix p x"
proof
  assume len: "length p \<le> length x" and "prefix p (x @ y)"
  moreover have "prefix x (x @ y)" by simp
  ultimately show "prefix p x" by (rule prefix_length_prefix [rotated 2])
next
  assume "prefix p x"
  then show "prefix p (x @ y)" by (rule prefix_prefix)
qed

lemma replace_skip:
  "old \<noteq> [] \<Longrightarrow> \<not> prefix old (c # cs) \<Longrightarrow> replace (c # cs) old new = c # replace cs old new"
  by simp

lemma replace_at_first:
  "\<not> contains (a @ ''.jso'') ''.json'' \<Longrightarrow>
     replace (a @ ''.json'' @ b) ''.json'' ''.txt'' = a @ ''.txt'' @ replace b ''.json'' ''.txt''"
proof (induction a)
  case Nil
  show ?case by simp
next
  case (Cons c cs)
  from Cons.prems have np: "\<not> prefix ''.json'' ((c # cs) @ ''.jso'')"
    and nc: "\<not> contains (cs @ ''.jso'') ''.json''"
    by simp_all
  have "prefix ''.json'' (((c # cs) @ ''.jso'') @ (''n'' @ b))
      = prefix ''.json'' ((c # cs) @ ''.jso'')"
    by (rule prefix_append_long) simp
  with np have "\<not> prefix ''.json'' (c # (cs @ ''.json'' @ b))"
    by simp
  then have "replace (c # (cs @ ''.json'' @ b)) ''.json'' ''.txt''
      = c # replace (cs @ ''.json'' @ b) ''.json'' ''.txt''"
    by (intro replace_skip) simp_all
  with Cons.IH [OF nc] show ?case by simp
qed

lemma replace_dotless_stem:
  "CHR ''.'' \<notin> set stem \<Longrightarrow> replace (stem @ ''.json'') ''.json'' ''.txt'' = stem @ ''.txt''"
  by (induction stem) simp_all

lemma open_write_refused:
  "open_raises env path = Some e \<Longrightarrow> open_write env path body w = (Inl e, w)"
  by (simp add: open_write_def)

lemma open_write_done:
  "open_raises env path = None \<Longrightarrow>
     open_write env path (Inr content) w = (Inr (), store path content w)"
  by (simp add: open_write_def)

lemma save_results_refused:
  "open_raises env (resolve_filename env filename_opt) = Some e \<Longrightarrow>
     save_results env result filename_opt w = (Inl e, w)"
  by (simp add: save_results_def Let_def open_write_refused)

lemma save_results_done:
  assumes "open_raises env (resolve_filename env filename_opt) = None"
    and "open_raises env (replace (resolve_filename env filename_opt) ''.json'' ''.txt'') = None"
    and "json_dump env (output_dict env result) = Inr json_text"
  shows "save_results env result filename_opt w =
     (Inr (resolve_filename env filename_opt,
           replace (resolve_filename env filename_opt) ''.json'' ''.txt''),
      store (replace (resolve_filename env filename_opt) ''.json'' ''.txt'')
        (report_text env result)
        (store (resolve_filename env filename_opt) json_text w))"
  using assms by (simp add: save_results_def Let_def open_write_done)

lemma save_results_returned:
  "fst (save_results env result filename_opt w) = Inr (a, b) \<Longrightarrow>
     a = resolve_filename env filename_opt \<and> b = replace a ''.json'' ''.txt''"
  by (auto simp: save_results_def Let_def split: prod.splits sum.splits)

lemma files_store: "files (store path content w) = (files w)(path \<mapsto> content)"
  by (simp add: store_def)

lemma writes_store: "writes (store path content w) = writes w @ [(path, content)]"
  by (simp add: store_def)

lemma stdout_store: "stdout (store path content w) = stdout w"
  by (simp add: store_def)

lemma report_text_contains_timestamp: "contains (report_text env result) (now_isoformat env)"
proof -
  have "report_text env result =
      (''Cabo Tourism Market Research Report\<newline>'' @ ''Generated: '') @ now_isoformat env
       @ (''\<newline>'' @ replicate 80 (CHR ''='') @ ''\<newline>\<newline>'' @ str_of env result)"
    by (simp add: report_text_def)
  then show ?thesis by (simp only: contains_middle)
qed

lemma report_text_contains_result: "contains (report_text env result) (str_of env result)"
proof -
  have "report_text env result =
      (''Cabo Tourism Market Research Report\<newline>'' @ ''Generated: '' @ now_isoformat env
       @ ''\<newline>'' @ replicate 80 (CHR ''='') @ ''\<newline>\<newline>'') @ str_of env result"
    by (simp add: report_text_def)
  then show ?thesis by (simp only: contains_append_right)
qed

lemma tourism_loop_total:
  "tourism_loop run sqs results =
     Inr (results @ map (\<lambda>sq. case run sq of
                                Inr result \<Rightarrow> result
                              | Inl e \<Rightarrow> ''Error searching for '' @ sq @ '': '' @ str_exn e) sqs)"
  by (induction sqs arbitrary: results) (auto simp: try_except_def split: sum.splits)

lemma for_each_query_total:
  "for_each_query (total_search f) l1 l2 qs acc =
     Inr (acc @ map (\<lambda>q. l1 @ '': '' @ q @ ''\<newline>'' @ l2 @ '': '' @ f q) qs)"
  by (induction qs arbitrary: acc) (simp_all add: total_search_def)

lemma for_each_query_raises:
  "isl (for_each_query run l1 l2 qs acc) = (\<exists>q \<in> set qs. isl (run q))"
  by (induction qs arbitrary: acc) (auto split: sum.splits)

lemma for_each_query_cong:
  "\<forall>q \<in> set qs. run q = run' q \<Longrightarrow> for_each_query run l1 l2 qs acc = for_each_query run' l1 l2 qs acc"
  by (induction qs arbitrary: acc) (auto split: sum.splits)

lemma isl_case_sum: "isl (case r of Inl e \<Rightarrow> Inl e | Inr xs \<Rightarrow> Inr (g xs)) = isl r"
  by (cases r) simp_all

lemma isl_always_timeout: "isl (always_timeout q)"
  by (simp add: always_timeout_def)

section \<open>The claims\<close>

text \<open>
  C7. For every result value: when both files can be opened and the dump succeeds,
  \<open>save_results\<close> returns the pair of the JSON location and the human-readable location;
  it writes, in this order, the JSON dump of a dictionary whose \<open>"result"\<close> field is
  \<open>str(result)\<close> and whose \<open>"timestamp"\<close> field is present, to the first location, and a
  text that contains the time stamp and \<open>str(result)\<close>, to the second; after the call the
  second location holds that text. When the file name contains \<open>".json"\<close>, as the default
  name always does, the two locations are different files and the first holds the JSON
  dump; for a name \<open>stem.json\<close> with no dot in \<open>stem\<close> the second location is
  \<open>stem.txt\<close>, and the default name is \<open>cabo_market_research_\<close>, the time stamp of the
  clock, \<open>.json\<close>. In general the second location is the first with every occurrence
  of \<open>".json"\<close>, found from the left, turned into \<open>".txt"\<close>: a name without
  \<open>".json"\<close> is kept, and a name whose first occurrence comes after \<open>a\<close> and
  before \<open>b\<close> becomes \<open>a\<close>, \<open>".txt"\<close> and what \<open>b\<close> becomes.
\<close>

theorem save_results_persists:
  assumes "filename = resolve_filename env filename_opt"
    and "txt_filename = replace filename ''.json'' ''.txt''"
    and "open_raises env filename = None"
    and "open_raises env txt_filename = None"
    and "json_dump env (output_dict env result) = Inr json_text"
  shows "fst (save_results env result filename_opt w) = Inr (filename, txt_filename)
   \<and> writes (snd (save_results env result filename_opt w)) =
       writes w @ [(filename, json_text), (txt_filename, report_text env result)]
   \<and> field (output_dict env result) ''result'' = Some (JString (str_of env result))
   \<and> field (output_dict env result) ''timestamp'' = Some (JString (now_isoformat env))
   \<and> contains (report_text env result) (now_isoformat env)
   \<and> contains (report_text env result) (str_of env result)
   \<and> files (snd (save_results env result filename_opt w)) txt_filename
       = Some (report_text env result)
   \<and> (contains filename ''.json'' \<longrightarrow>
        txt_filename \<noteq> filename
        \<and> files (snd (save_results env result filename_opt w)) filename = Some json_text)
   \<and> (filename_opt = None \<longrightarrow>
        contains filename ''.json''
        \<and> filename = ''cabo_market_research_'' @ now_strftime env @ ''.json'')
   \<and> (filename = stem @ ''.json'' \<longrightarrow> CHR ''.'' \<notin> set stem \<longrightarrow>
        txt_filename = stem @ ''.txt'')
   \<and> (\<not> contains filename ''.json'' \<longrightarrow> txt_filename = filename)
   \<and> (filename = a @ ''.json'' @ b \<longrightarrow> \<not> contains (a @ ''.jso'') ''.json'' \<longrightarrow>
        txt_filename = a @ ''.txt'' @ replace b ''.json'' ''.txt'')"
proof -
  have run: "save_results env result filename_opt w =
      (Inr (filename, txt_filename),
       store txt_filename (report_text env result) (store filename json_text w))"
    using assms save_results_done [of env filename_opt result json_text w] by simp
  have fields: "field (output_dict env result) ''result'' = Some (JString (str_of env result))"
    "field (output_dict env result) ''timestamp'' = Some (JString (now_isoformat env))"
    by (simp_all add: output_dict_def)
  have differ: "contains filename ''.json'' \<Longrightarrow> txt_filename \<noteq> filename"
    using assms(2) replace_json_changes [of filename] by simp
  have default: "filename_opt = None \<Longrightarrow>
      contains filename ''.json''
      \<and> filename = ''cabo_market_research_'' @ now_strftime env @ ''.json''"
    using assms(1) default_filename_contains [of env]
    by (simp only: resolve_filename_def default_filename_def option.case)
  have stem: "filename = stem @ ''.json'' \<Longrightarrow> CHR ''.'' \<notin> set stem \<Longrightarrow>
      txt_filename = stem @ ''.txt''"
    using assms(2) replace_dotless_stem [of stem] by simp
  show ?thesis
  proof (intro conjI impI)
    show "fst (save_results env result filename_opt w) = Inr (filename, txt_filename)"
      by (simp add: run)
    show "writes (snd (save_results env result filename_opt w)) =
        writes w @ [(filename, json_text), (txt_filename, report_text env result)]"
      by (simp add: run writes_store)
    show "field (output_dict env result) ''result'' = Some (JString (str_of env result))"
      and "field (output_dict env result) ''timestamp'' = Some (JString (now_isoformat env))"
      by (rule fields)+
    show "contains (report_text env result) (now_isoformat env)"
      by (rule report_text_contains_timestamp)
    show "contains (report_text env result) (str_of env result)"
      by (rule report_text_contains_result)
    show "files (snd (save_results env result filename_opt w)) txt_filename
        = Some (report_text env result)"
      by (simp add: run files_store)
  next
    assume has: "contains filename ''.json''"
    then show "txt_filename \<noteq> filename" by (rule differ)
    then show "files (snd (save_results env result filename_opt w)) filename = Some json_text"
      by (simp add: run files_store)
  next
    assume "filename_opt = None"
    then show "contains filename ''.json''"
      and "filename = ''cabo_market_research_'' @ now_strftime env @ ''.json''"
      using default by blast+
  next
    assume "filename = stem @ ''.json''" and "CHR ''.'' \<notin> set stem"
    then show "txt_filename = stem @ ''.txt''" by (rule stem)
  next
    assume "\<not> contains filename ''.json''"
    then show "txt_filename = filename"
      using assms(2) replace_json_fixed [of filename] by simp
  next
    assume "filename = a @ ''.json'' @ b" and "\<not> contains (a @ ''.jso'') ''.json''"
    then show "txt_filename = a @ ''.txt'' @ replace b ''.json'' ''.txt''"
      using assms(2) replace_at_first [of a b] by simp
  qed
qed

theorem save_results_persists_witness:
  "fst (save_results example_env ''final report'' None empty_world) =
     Inr (''cabo_market_research_20250101_120000.json'',
          ''cabo_market_research_20250101_120000.txt'')
   \<and> files (snd (save_results example_env ''final report'' None empty_world))
         ''cabo_market_research_20250101_120000.json''
       = Some (example_render (output_dict example_env ''final report''))
   \<and> files (snd (save_results example_env ''final report'' None empty_world))
         ''cabo_market_research_20250101_120000.txt''
       = Some (report_text example_env ''final report'')
   \<and> field (output_dict example_env ''final report'') ''result''
       = Some (JString ''final report'')
   \<and> fst (save_results example_env ''final report'' (Some ''notes'') empty_world)
       = Inr (''notes'', ''notes'')
   \<and> files (snd (save_results example_env ''final report'' (Some ''notes'') empty_world)) ''notes''
       = Some (report_text example_env ''final report'')"
proof -
  have name: "''cabo_market_research_20250101_120000.json''
      = resolve_filename example_env None"
    by (simp add: resolve_filename_def default_filename_def example_env_def)
  have txt_name: "''cabo_market_research_20250101_120000.txt''
      = replace ''cabo_market_research_20250101_120000.json'' ''.json'' ''.txt''"
    by simp
  have open1: "open_raises example_env ''cabo_market_research_20250101_120000.json'' = None"
    by (simp add: open_raises_def example_env_def)
  have open2: "open_raises example_env ''cabo_market_research_20250101_120000.txt'' = None"
    by (simp add: open_raises_def example_env_def)
  have dump: "json_dump example_env (output_dict example_env ''final report'')
      = Inr (example_render (output_dict example_env ''final report''))"
    by (simp add: example_env_def)
  have has: "contains ''cabo_market_research_20250101_120000.json'' ''.json''"
    by simp
  have str_id: "str_of example_env ''final report'' = ''final report''"
    by (simp add: example_env_def)
  have notes_name: "''notes'' = resolve_filename example_env (Some ''notes'')"
    by (simp add: resolve_filename_def)
  have notes_txt: "''notes'' = replace ''notes'' ''.json'' ''.txt''"
    by simp
  have notes_open: "open_raises example_env ''notes'' = None"
    by (simp add: open_raises_def example_env_def)
  have default_run:
    "fst (save_results example_env ''final report'' None empty_world) =
       Inr (''cabo_market_research_20250101_120000.json'',
            ''cabo_market_research_20250101_120000.txt'')
     \<and> files (snd (save_results example_env ''final report'' None empty_world))
           ''cabo_market_research_20250101_120000.json''
         = Some (example_render (output_dict example_env ''final report''))
     \<and> files (snd (save_results example_env ''final report'' None empty_world))
           ''cabo_market_research_20250101_120000.txt''
         = Some (report_text example_env ''final report'')
     \<and> field (output_dict example_env ''final report'') ''result''
         = Some (JString ''final report'')"
    using save_results_persists [OF name txt_name open1 open2 dump, of empty_world
        "''cabo_market_research_20250101_120000''"] has str_id
    by simp
  have explicit_run:
    "fst (save_results example_env ''final report'' (Some ''notes'') empty_world)
         = Inr (''notes'', ''notes'')
     \<and> files (snd (save_results example_env ''final report'' (Some ''notes'') empty_world)) ''notes''
         = Some (report_text example_env ''final report'')"
    using save_results_persists [OF notes_name notes_txt notes_open notes_open dump, of empty_world]
    by simp
  from default_run explicit_run show ?thesis by simp
qed

text \<open>
  C8, as the code has it. For every explicitly supplied file name that does not contain
  \<open>".json"\<close> and that can be opened for writing, the dump succeeding, the human-readable
  path equals the JSON path: both writes go to that one path, the text replaces the JSON
  just written, and the two returned locations are equal. Whenever a pair is returned,
  its two locations differ exactly when the file name is \<open>None\<close> (the time-stamped
  default) or contains \<open>".json"\<close>. When the first open raises, \<open>save_results\<close> raises that
  exception and has returned and written nothing.
\<close>

theorem save_results_same_path:
  "(\<not> contains f ''.json'' \<longrightarrow> open_raises env f = None \<longrightarrow>
      json_dump env (output_dict env result) = Inr json_text \<longrightarrow>
        fst (save_results env result (Some f) w) = Inr (f, f)
        \<and> writes (snd (save_results env result (Some f) w)) =
            writes w @ [(f, json_text), (f, report_text env result)]
        \<and> files (snd (save_results env result (Some f) w)) f = Some (report_text env result))
   \<and> (fst (save_results env result filename_opt w) = Inr (a, b) \<longrightarrow>
        (a \<noteq> b) = (case filename_opt of None \<Rightarrow> True | Some f' \<Rightarrow> contains f' ''.json''))
   \<and> (open_raises env (resolve_filename env filename_opt) = Some e \<longrightarrow>
        save_results env result filename_opt w = (Inl e, w))"
proof (intro conjI impI)
  assume absent: "\<not> contains f ''.json''" and opened: "open_raises env f = None"
    and dumped: "json_dump env (output_dict env result) = Inr json_text"
  from absent have same: "replace f ''.json'' ''.txt'' = f" by (rule replace_json_fixed)
  have run: "save_results env result (Some f) w =
      (Inr (f, f), store f (report_text env result) (store f json_text w))"
    using save_results_done [of env "Some f" result json_text w] opened dumped same
    by (simp add: resolve_filename_def)
  show "fst (save_results env result (Some f) w) = Inr (f, f)"
    by (simp add: run)
  show "writes (snd (save_results env result (Some f) w)) =
            writes w @ [(f, json_text), (f, report_text env result)]"
    by (simp add: run writes_store)
  show "files (snd (save_results env result (Some f) w)) f = Some (report_text env result)"
    by (simp add: run files_store)
next
  assume "fst (save_results env result filename_opt w) = Inr (a, b)"
  then have ab: "a = resolve_filename env filename_opt \<and> b = replace a ''.json'' ''.txt''"
    by (rule save_results_returned)
  show "(a \<noteq> b) = (case filename_opt of None \<Rightarrow> True | Some f' \<Rightarrow> contains f' ''.json'')"
  proof (cases filename_opt)
    case None
    have "contains (default_filename env) ''.json''"
      by (rule default_filename_contains)
    then have "replace (default_filename env) ''.json'' ''.txt'' \<noteq> default_filename env"
      by (rule replace_json_changes)
    moreover have "a = default_filename env"
      using ab None by (simp add: resolve_filename_def)
    ultimately have "a \<noteq> b" using ab by metis
    with None show ?thesis by simp
  next
    case (Some f')
    have "a = f'" using ab Some by (simp add: resolve_filename_def)
    moreover have "(f' \<noteq> replace f' ''.json'' ''.txt'') = contains f' ''.json''"
      using replace_json_eq_iff [of f'] by metis
    ultimately have "(a \<noteq> b) = contains f' ''.json''" using ab by metis
    with Some show ?thesis by simp
  qed
next
  assume "open_raises env (resolve_filename env filename_opt) = Some e"
  then show "save_results env result filename_opt w = (Inl e, w)"
    by (rule save_results_refused)
qed

theorem save_results_same_path_witness:
  "fst (save_results example_env ''final report'' (Some ''report'') empty_world)
       = Inr (''report'', ''report'')
   \<and> files (snd (save_results example_env ''final report'' (Some ''report'') empty_world)) ''report''
       = Some (report_text example_env ''final report'')
   \<and> writes (snd (save_results example_env ''final report'' (Some ''report'') empty_world))
       = [(''report'', example_render (output_dict example_env ''final report'')),
          (''report'', report_text example_env ''final report'')]
   \<and> fst (save_results example_env ''final report'' (Some ''out.json'') empty_world)
       = Inr (''out.json'', ''out.txt'')
   \<and> ''out.json'' \<noteq> ''out.txt'' \<and> contains ''out.json'' ''.json''
   \<and> save_results example_env ''final report'' (Some [CHR ''a'', CHR 0x00]) empty_world
       = (Inl (Exception ''embedded null byte''), empty_world)"
proof -
  have absent: "\<not> contains ''report'' ''.json''" by simp
  have opened: "open_raises example_env ''report'' = None"
    by (simp add: open_raises_def example_env_def)
  have dump: "json_dump example_env (output_dict example_env ''final report'')
      = Inr (example_render (output_dict example_env ''final report''))"
    by (simp add: example_env_def)
  have returned: "fst (save_results example_env ''final report'' (Some ''out.json'') empty_world)
       = Inr (''out.json'', ''out.txt'')"
    by (simp add: save_results_def Let_def resolve_filename_def open_write_def open_raises_def
        example_env_def)
  have refused: "open_raises example_env (resolve_filename example_env (Some [CHR ''a'', CHR 0x00]))
      = Some (Exception ''embedded null byte'')"
    by (simp add: open_raises_def resolve_filename_def)
  note same = save_results_same_path
    [where f = "''report''" and env = example_env and result = "''final report''"
      and json_text = "example_render (output_dict example_env ''final report'')"
      and w = empty_world and filename_opt = "Some ''out.json''"
      and a = "''out.json''" and b = "''out.txt''"]
  note raised = save_results_same_path
    [where env = example_env and result = "''final report''" and w = empty_world
      and filename_opt = "Some [CHR ''a'', CHR 0x00]"
      and e = "Exception ''embedded null byte''"]
  have "fst (save_results example_env ''final report'' (Some ''report'') empty_world)
       = Inr (''report'', ''report'')"
    and "files (snd (save_results example_env ''final report'' (Some ''report'') empty_world)) ''report''
       = Some (report_text example_env ''final report'')"
    and "writes (snd (save_results example_env ''final report'' (Some ''report'') empty_world))
       = [(''report'', example_render (output_dict example_env ''final report'')),
          (''report'', report_text example_env ''final report'')]"
    using same absent opened dump by (simp_all add: empty_world_def)
  moreover have "''out.json'' \<noteq> ''out.txt'' \<and> contains ''out.json'' ''.json''"
    using same returned by simp
  moreover have "save_results example_env ''final report'' (Some [CHR ''a'', CHR 0x00]) empty_world
       = (Inl (Exception ''embedded null byte''), empty_world)"
    using raised refused by blast
  ultimately show ?thesis using returned by simp
qed

text \<open>
  C8, as stated, speaks of every explicitly supplied file name without \<open>".json"\<close>. The
  empty name is one, and there \<^verbatim>\<open>open\<close> raises: no pair of locations is returned and
  nothing is written.
\<close>

theorem save_results_empty_name_raises:
  "\<not> contains [] ''.json''
   \<and> save_results example_env ''final report'' (Some []) empty_world =
       (Inl (Exception (''[Errno 2] No such file or directory: '' @ [CHR 0x27, CHR 0x27])),
        empty_world)"
  by (simp add: save_results_def Let_def resolve_filename_def open_write_def open_raises_def)

text \<open>
  C9. For every query (and every behaviour of the search tool),
  \<open>analyze_cabo_tourism_data\<close> returns, and what it returns is the join by two newlines
  of four entries, one for each derived search query in declaration order: the search
  result, or an error message when the search raised. The four other tools have no
  handler: each raises exactly when one of its search calls raises.
\<close>

theorem tourism_tool_absorbs_search_errors:
  "analyze_cabo_tourism_data run query =
     Inr (join ''\<newline>\<newline>''
            (map (\<lambda>sq. case run sq of
                         Inr result \<Rightarrow> result
                       | Inl e \<Rightarrow> ''Error searching for '' @ sq @ '': '' @ str_exn e)
                 (tourism_search_queries query)))
   \<and> length (tourism_search_queries query) = 4
   \<and> isl (analyze_competitors run b) = (\<exists>q \<in> set (competitor_queries b). isl (run q))
   \<and> isl (analyze_customer_sentiment run b) = (\<exists>q \<in> set (sentiment_sources b). isl (run q))
   \<and> isl (predict_market_trends run b) = (\<exists>q \<in> set (trend_queries b). isl (run q))
   \<and> isl (calculate_roi_potential run p t) = (\<exists>q \<in> set (roi_factors p t). isl (run q))"
proof (intro conjI)
  show "analyze_cabo_tourism_data run query =
     Inr (join ''\<newline>\<newline>''
            (map (\<lambda>sq. case run sq of
                         Inr result \<Rightarrow> result
                       | Inl e \<Rightarrow> ''Error searching for '' @ sq @ '': '' @ str_exn e)
                 (tourism_search_queries query)))"
    by (simp add: analyze_cabo_tourism_data_def tourism_loop_total)
  show "length (tourism_search_queries query) = 4"
    by (simp add: tourism_search_queries_def)
  show "isl (analyze_competitors run b) = (\<exists>q \<in> set (competitor_queries b). isl (run q))"
    by (simp add: analyze_competitors_def isl_case_sum for_each_query_raises)
  show "isl (analyze_customer_sentiment run b) = (\<exists>q \<in> set (sentiment_sources b). isl (run q))"
    by (simp add: analyze_customer_sentiment_def isl_case_sum for_each_query_raises)
  show "isl (predict_market_trends run b) = (\<exists>q \<in> set (trend_queries b). isl (run q))"
    by (simp add: predict_market_trends_def isl_case_sum for_each_query_raises)
  show "isl (calculate_roi_potential run p t) = (\<exists>q \<in> set (roi_factors p t). isl (run q))"
    by (simp add: calculate_roi_potential_def isl_case_sum for_each_query_raises)
qed

theorem tourism_tool_absorbs_search_errors_witness:
  "analyze_cabo_tourism_data always_timeout ''spa'' =
     Inr (''Error searching for spa Cabo San Lucas tourism statistics 2024 2025: timeout\<newline>\<newline>''
          @ ''Error searching for spa Los Cabos visitor demographics luxury travel: timeout\<newline>\<newline>''
          @ ''Error searching for spa Cabo adventure tourism wellness retreats: timeout\<newline>\<newline>''
          @ ''Error searching for spa Los Cabos hotel occupancy rates trends: timeout'')
   \<and> isl (always_timeout ''spa Cabo San Lucas top rated TripAdvisor'')
   \<and> isl (analyze_competitors always_timeout ''spa'')
   \<and> isl (analyze_customer_sentiment always_timeout ''spa'')
   \<and> isl (predict_market_trends always_timeout ''spa'')
   \<and> isl (calculate_roi_potential always_timeout ''chatbot'' ''hotels'')"
proof -
  note inst = tourism_tool_absorbs_search_errors
    [of always_timeout "''spa''" "''spa''" "''chatbot''" "''hotels''"]
  have "analyze_cabo_tourism_data always_timeout ''spa'' =
     Inr (''Error searching for spa Cabo San Lucas tourism statistics 2024 2025: timeout\<newline>\<newline>''
          @ ''Error searching for spa Los Cabos visitor demographics luxury travel: timeout\<newline>\<newline>''
          @ ''Error searching for spa Cabo adventure tourism wellness retreats: timeout\<newline>\<newline>''
          @ ''Error searching for spa Los Cabos hotel occupancy rates trends: timeout'')"
    using inst by (simp add: always_timeout_def tourism_search_queries_def)
  moreover have "isl (analyze_competitors always_timeout ''spa'')"
    using inst by (simp add: isl_always_timeout competitor_queries_def) blast
  moreover have "isl (analyze_customer_sentiment always_timeout ''spa'')"
    using inst by (simp add: isl_always_timeout sentiment_sources_def) blast
  moreover have "isl (predict_market_trends always_timeout ''spa'')"
    using inst by (simp add: isl_always_timeout trend_queries_def) blast
  moreover have "isl (calculate_roi_potential always_timeout ''chatbot'' ''hotels'')"
    using inst by (simp add: isl_always_timeout roi_factors_def) blast
  ultimately show ?thesis by (simp add: isl_always_timeout)
qed

text \<open>
  C10. With the search tool a function from the query to the result text, the output of
  each custom tool is determined by that function: for every \<open>business_type\<close>,
  \<open>analyze_competitors\<close> returns exactly the join by two newlines of the four strings
  \<^verbatim>\<open>"Query: {q}\nResults: {r}"\<close>, for its four derived queries \<open>q\<close> in
  declaration order and \<open>r\<close> the search function at \<open>q\<close>; the other tools likewise with
  their own labels and queries. Two search functions that agree on the four derived
  queries give the same output.
\<close>

theorem tools_are_functions_of_search:
  "analyze_competitors (total_search search) business_type =
     Inr (join ''\<newline>\<newline>''
            (map (\<lambda>q. ''Query: '' @ q @ ''\<newline>Results: '' @ search q)
                 [business_type @ '' Cabo San Lucas top rated TripAdvisor'',
                  business_type @ '' Los Cabos pricing strategies 2024'',
                  business_type @ '' Cabo digital tools technology adoption'',
                  business_type @ '' Los Cabos customer complaints reviews'']))
   \<and> analyze_customer_sentiment (total_search search) business_category =
     Inr (join ''\<newline>\<newline>''
            (map (\<lambda>q. ''Source: '' @ q @ ''\<newline>Findings: '' @ search q)
                 (sentiment_sources business_category)))
   \<and> predict_market_trends (total_search search) industry_segment =
     Inr (join ''\<newline>\<newline>''
            (map (\<lambda>q. ''Trend area: '' @ q @ ''\<newline>Predictions: '' @ search q)
                 (trend_queries industry_segment)))
   \<and> calculate_roi_potential (total_search search) product_type target_market =
     Inr (join ''\<newline>\<newline>''
            (map (\<lambda>q. ''ROI Factor: '' @ q @ ''\<newline>Data: '' @ search q)
                 (roi_factors product_type target_market)))
   \<and> analyze_cabo_tourism_data (total_search search) query =
     Inr (join ''\<newline>\<newline>'' (map search (tourism_search_queries query)))
   \<and> ((\<forall>q \<in> set (competitor_queries business_type). search q = search' q) \<longrightarrow>
        analyze_competitors (total_search search) business_type
          = analyze_competitors (total_search search') business_type)"
proof (intro conjI impI)
  show "analyze_competitors (total_search search) business_type =
     Inr (join ''\<newline>\<newline>''
            (map (\<lambda>q. ''Query: '' @ q @ ''\<newline>Results: '' @ search q)
                 [business_type @ '' Cabo San Lucas top rated TripAdvisor'',
                  business_type @ '' Los Cabos pricing strategies 2024'',
                  business_type @ '' Cabo digital tools technology adoption'',
                  business_type @ '' Los Cabos customer complaints reviews'']))"
  proof -
    have "analyze_competitors (total_search search) business_type =
       Inr (join ''\<newline>\<newline>''
              (map (\<lambda>q. ''Query: '' @ q @ ''\<newline>Results: '' @ search q)
                   (competitor_queries business_type)))"
      by (simp add: analyze_competitors_def for_each_query_total)
    then show ?thesis by (simp add: competitor_queries_def)
  qed
  show "analyze_customer_sentiment (total_search search) business_category =
     Inr (join ''\<newline>\<newline>''
            (map (\<lambda>q. ''Source: '' @ q @ ''\<newline>Findings: '' @ search q)
                 (sentiment_sources business_category)))"
    by (simp add: analyze_customer_sentiment_def for_each_query_total)
  show "predict_market_trends (total_search search) industry_segment =
     Inr (join ''\<newline>\<newline>''
            (map (\<lambda>q. ''Trend area: '' @ q @ ''\<newline>Predictions: '' @ search q)
                 (trend_queries industry_segment)))"
    by (simp add: predict_market_trends_def for_each_query_total)
  show "calculate_roi_potential (total_search search) product_type target_market =
     Inr (join ''\<newline>\<newline>''
            (map (\<lambda>q. ''ROI Factor: '' @ q @ ''\<newline>Data: '' @ search q)
                 (roi_factors product_type target_market)))"
    by (simp add: calculate_roi_potential_def for_each_query_total)
  show "analyze_cabo_tourism_data (total_search search) query =
     Inr (join ''\<newline>\<newline>'' (map search (tourism_search_queries query)))"
    by (simp add: analyze_cabo_tourism_data_def tourism_loop_total total_search_def)
next
  assume "\<forall>q \<in> set (competitor_queries business_type). search q = search' q"
  then have "\<forall>q \<in> set (competitor_queries business_type).
      total_search search q = total_search search' q"
    by (simp add: total_search_def)
  then have "for_each_query (total_search search) ''Query'' ''Results''
        (competitor_queries business_type) []
      = for_each_query (total_search search') ''Query'' ''Results''
        (competitor_queries business_type) []"
    by (rule for_each_query_cong)
  then show "analyze_competitors (total_search search) business_type
          = analyze_competitors (total_search search') business_type"
    by (simp add: analyze_competitors_def)
qed

theorem tools_are_functions_of_search_witness:
  "echo_search ''weather'' \<noteq> echo_search_except ''weather''
   \<and> analyze_competitors (total_search echo_search) ''spa''
       = analyze_competitors (total_search echo_search_except) ''spa''
   \<and> analyze_competitors (total_search echo_search) ''spa'' =
       Inr (''Query: spa Cabo San Lucas top rated TripAdvisor\<newline>''
            @ ''Results: hits for spa Cabo San Lucas top rated TripAdvisor\<newline>\<newline>''
            @ ''Query: spa Los Cabos pricing strategies 2024\<newline>''
            @ ''Results: hits for spa Los Cabos pricing strategies 2024\<newline>\<newline>''
            @ ''Query: spa Cabo digital tools technology adoption\<newline>''
            @ ''Results: hits for spa Cabo digital tools technology adoption\<newline>\<newline>''
            @ ''Query: spa Los Cabos customer complaints reviews\<newline>''
            @ ''Results: hits for spa Los Cabos customer complaints reviews'')"
proof -
  note inst = tools_are_functions_of_search
    [where search = echo_search and business_type = "''spa''" and search' = echo_search_except]
  have agree: "\<forall>q \<in> set (competitor_queries ''spa''). echo_search q = echo_search_except q"
    by (simp add: competitor_queries_def echo_search_def echo_search_except_def)
  have "analyze_competitors (total_search echo_search) ''spa''
       = analyze_competitors (total_search echo_search_except) ''spa''"
    using inst agree by blast
  moreover have "analyze_competitors (total_search echo_search) ''spa'' =
       Inr (''Query: spa Cabo San Lucas top rated TripAdvisor\<newline>''
            @ ''Results: hits for spa Cabo San Lucas top rated TripAdvisor\<newline>\<newline>''
            @ ''Query: spa Los Cabos pricing strategies 2024\<newline>''
            @ ''Results: hits for spa Los Cabos pricing strategies 2024\<newline>\<newline>''
            @ ''Query: spa Cabo digital tools technology adoption\<newline>''
            @ ''Results: hits for spa Cabo digital tools technology adoption\<newline>\<newline>''
            @ ''Query: spa Los Cabos customer complaints reviews\<newline>''
            @ ''Results: hits for spa Los Cabos customer complaints reviews'')"
    using inst by (simp add: echo_search_def)
  moreover have "echo_search ''weather'' \<noteq> echo_search_except ''weather''"
    by (simp add: echo_search_def echo_search_except_def)
  ultimately show ?thesis by simp
qed



end
